theory Spec2Isabelle
  imports Complex_Main
begin

section \<open>GaussianMLPModel (garage/tf/models/gaussian\_mlp\_model.py)\<close>

text \<open>
  The model embeds the two methods of the class \<^verbatim>\<open>GaussianMLPModel\<close>: the constructor
  \<^verbatim>\<open>__init__\<close> and the forward definition \<^verbatim>\<open>_build\<close>.

  Numbers: the floating-point values of numpy and TensorFlow are modelled by real numbers,
  \<^verbatim>\<open>np.log\<close>, \<^verbatim>\<open>tf.log\<close> by \<open>ln\<close> and \<^verbatim>\<open>np.exp\<close>, \<^verbatim>\<open>tf.exp\<close> by \<open>exp\<close>. Rounding,
  overflow, infinities and NaN are outside the model.

  Tensors: \<^verbatim>\<open>state_input\<close> and every tensor computed from it has rank two, a list of rows
  (the batch) of lists of reals (the last axis).
\<close>

type_synonym tensor = "real list list"

type_synonym nonlinearity = "tensor \<Rightarrow> tensor"

definition tf_nn_tanh :: nonlinearity where
  "tf_nn_tanh t = map (map tanh) t"

text \<open>
  A numpy value handed to \<^verbatim>\<open>tf.constant_initializer\<close>: a scalar or a one-dimensional array.
  Its entries are Python objects, a float or \<^verbatim>\<open>None\<close>, since the attribute
  \<^verbatim>\<open>_init_std_param\<close> starts as \<^verbatim>\<open>None\<close>.
\<close>

datatype np_value = Scalar "real option" | Array "real option list"

datatype initializer =
  glorot_uniform_initializer
| zeros_initializer
| constant_initializer np_value

datatype error = NotImplementedError

text \<open>\<^verbatim>\<open>DiagonalGaussian(dim)\<close>: the distribution object, built from the dimension alone.\<close>

datatype distribution = DiagonalGaussian nat

subsection \<open>The constructor\<close>

text \<open>
  The keyword arguments of \<^verbatim>\<open>__init__\<close>. A field is \<open>None\<close> when the caller omits the
  argument, and then the default of the signature applies. Arguments that may be passed as
  \<^verbatim>\<open>None\<close> (the name, the nonlinearities, \<^verbatim>\<open>min_std\<close>, \<^verbatim>\<open>max_std\<close>) have an option type of
  their own, so \<open>Some None\<close> is an explicit \<^verbatim>\<open>None\<close>.
\<close>

record kwargs =
  name :: "string option option"
  hidden_sizes :: "nat list option"
  hidden_nonlinearity :: "nonlinearity option option"
  hidden_w_init :: "initializer option"
  hidden_b_init :: "initializer option"
  output_nonlinearity :: "nonlinearity option option"
  output_w_init :: "initializer option"
  output_b_init :: "initializer option"
  learn_std :: "bool option"
  adaptive_std :: "bool option"
  std_share_network :: "bool option"
  init_std :: "real option"
  min_std :: "real option option"
  max_std :: "real option option"
  std_hidden_sizes :: "nat list option"
  std_hidden_nonlinearity :: "nonlinearity option option"
  std_hidden_w_init :: "initializer option"
  std_hidden_b_init :: "initializer option"
  std_output_nonlinearity :: "nonlinearity option option"
  std_output_w_init :: "initializer option"
  std_output_b_init :: "initializer option"
  std_parameterization :: "string option"
  layer_normalization :: "bool option"

text \<open>A call that passes \<^verbatim>\<open>output_dim\<close> only.\<close>

definition no_kwargs :: kwargs where
  "no_kwargs = \<lparr> name = None, hidden_sizes = None, hidden_nonlinearity = None,
     hidden_w_init = None, hidden_b_init = None, output_nonlinearity = None,
     output_w_init = None, output_b_init = None, learn_std = None, adaptive_std = None,
     std_share_network = None, init_std = None, min_std = None, max_std = None,
     std_hidden_sizes = None, std_hidden_nonlinearity = None, std_hidden_w_init = None,
     std_hidden_b_init = None, std_output_nonlinearity = None, std_output_w_init = None,
     std_output_b_init = None, std_parameterization = None, layer_normalization = None \<rparr>"

text \<open>The value of an argument: the one passed, or the default of the signature.\<close>

definition arg :: "'a \<Rightarrow> 'a option \<Rightarrow> 'a" where
  "arg dflt passed = (case passed of None \<Rightarrow> dflt | Some v \<Rightarrow> v)"

text \<open>The attributes of the object (\<^verbatim>\<open>self._hidden_sizes\<close> is \<open>self_hidden_sizes\<close>).\<close>

record self =
  self_name :: "string option"
  self_hidden_sizes :: "nat list"
  self_output_dim :: nat
  self_learn_std :: bool
  self_adaptive_std :: bool
  self_std_share_network :: bool
  self_std_hidden_sizes :: "nat list"
  self_min_std :: "real option"
  self_max_std :: "real option"
  self_std_hidden_nonlinearity :: "nonlinearity option"
  self_std_hidden_w_init :: initializer
  self_std_hidden_b_init :: initializer
  self_std_output_nonlinearity :: "nonlinearity option"
  self_std_output_w_init :: initializer
  self_std_output_b_init :: initializer
  self_std_parameterization :: string
  self_hidden_nonlinearity :: "nonlinearity option"
  self_hidden_w_init :: initializer
  self_hidden_b_init :: initializer
  self_output_nonlinearity :: "nonlinearity option"
  self_output_w_init :: initializer
  self_output_b_init :: initializer
  self_layer_normalization :: bool
  self_init_std_param :: "real option"
  self_min_std_param :: "real option"
  self_max_std_param :: "real option"

text \<open>
  Lines 70 to 98 of \<^verbatim>\<open>__init__\<close>: the arguments are stored and the three derived bounds are
  set to \<^verbatim>\<open>None\<close>.
\<close>

definition store_args :: "nat \<Rightarrow> kwargs \<Rightarrow> self" where
  "store_args output_dim kw =
    \<lparr> self_name = arg None (name kw),
      self_hidden_sizes = arg [32, 32] (hidden_sizes kw),
      self_output_dim = output_dim,
      self_learn_std = arg True (learn_std kw),
      self_adaptive_std = arg False (adaptive_std kw),
      self_std_share_network = arg False (std_share_network kw),
      self_std_hidden_sizes = arg [32, 32] (std_hidden_sizes kw),
      self_min_std = arg (Some (1 / 10 ^ 6)) (min_std kw),
      self_max_std = arg None (max_std kw),
      self_std_hidden_nonlinearity = arg (Some tf_nn_tanh) (std_hidden_nonlinearity kw),
      self_std_hidden_w_init = arg glorot_uniform_initializer (std_hidden_w_init kw),
      self_std_hidden_b_init = arg zeros_initializer (std_hidden_b_init kw),
      self_std_output_nonlinearity = arg None (std_output_nonlinearity kw),
      self_std_output_w_init = arg glorot_uniform_initializer (std_output_w_init kw),
      self_std_output_b_init = arg zeros_initializer (std_output_b_init kw),
      self_std_parameterization = arg ''exp'' (std_parameterization kw),
      self_hidden_nonlinearity = arg (Some tf_nn_tanh) (hidden_nonlinearity kw),
      self_hidden_w_init = arg glorot_uniform_initializer (hidden_w_init kw),
      self_hidden_b_init = arg zeros_initializer (hidden_b_init kw),
      self_output_nonlinearity = arg None (output_nonlinearity kw),
      self_output_w_init = arg glorot_uniform_initializer (output_w_init kw),
      self_output_b_init = arg zeros_initializer (output_b_init kw),
      self_layer_normalization = arg False (layer_normalization kw),
      self_init_std_param = None,
      self_min_std_param = None,
      self_max_std_param = None \<rparr>"

text \<open>
  \<^verbatim>\<open>__init__\<close>: the state of the object when the method ends, and the exception it ends with,
  if any. The three branches are those of lines 99 to 112; the bounds are computed from the
  arguments \<^verbatim>\<open>init_std\<close>, \<^verbatim>\<open>min_std\<close>, \<^verbatim>\<open>max_std\<close>.
\<close>

definition init :: "nat \<Rightarrow> kwargs \<Rightarrow> self \<times> error option" where
  "init output_dim kw =
    (let s = store_args output_dim kw;
         init_std_v = arg 1 (init_std kw);
         min_std_v = arg (Some (1 / 10 ^ 6)) (min_std kw);
         max_std_v = arg None (max_std kw)
     in if self_std_parameterization s = ''exp'' then
          (s \<lparr> self_init_std_param := Some (ln init_std_v),
               self_min_std_param :=
                 (case min_std_v of None \<Rightarrow> None | Some v \<Rightarrow> Some (ln v)),
               self_max_std_param :=
                 (case max_std_v of None \<Rightarrow> None | Some v \<Rightarrow> Some (ln v)) \<rparr>, None)
        else if self_std_parameterization s = ''softplus'' then
          (s \<lparr> self_init_std_param := Some (ln (exp init_std_v - 1)),
               self_min_std_param :=
                 (case min_std_v of None \<Rightarrow> None | Some v \<Rightarrow> Some (ln (exp v - 1))),
               self_max_std_param :=
                 (case max_std_v of None \<Rightarrow> None | Some v \<Rightarrow> Some (ln (exp v - 1))) \<rparr>, None)
        else (s, Some NotImplementedError))"

text \<open>
  The constructor call \<^verbatim>\<open>GaussianMLPModel(output_dim, ...)\<close>: the object, or the exception
  \<^verbatim>\<open>__init__\<close> raised.
\<close>

definition GaussianMLPModel :: "nat \<Rightarrow> kwargs \<Rightarrow> error + self" where
  "GaussianMLPModel output_dim kw =
    (case init output_dim kw of
       (s, None) \<Rightarrow> Inr s
     | (s, Some e) \<Rightarrow> Inl e)"

definition network_output_spec :: "string list" where
  "network_output_spec = [''sample'', ''mean'', ''log_std'', ''std_param'', ''dist'']"

subsection \<open>The collaborators of the forward definition\<close>

text \<open>
  \<^verbatim>\<open>garage.tf.core.mlp.mlp\<close> is the feed-forward network builder. It is a black box here: a
  parameter \<open>mlp\<close> of the forward definition, a function of the input tensor and of the
  keyword arguments of the call (the weights it holds are selected by the name).
\<close>

record mlp_args =
  mlp_output_dim :: nat
  mlp_hidden_sizes :: "nat list"
  mlp_hidden_nonlinearity :: "nonlinearity option"
  mlp_hidden_w_init :: initializer
  mlp_hidden_b_init :: initializer
  mlp_output_nonlinearity :: "nonlinearity option"
  mlp_output_w_init :: initializer
  mlp_output_b_init :: initializer
  mlp_name :: string
  mlp_layer_normalization :: bool

record parameter_args =
  parameter_length :: nat
  parameter_initializer :: initializer
  parameter_trainable :: bool
  parameter_name :: string

text \<open>
  Building the graph is an effect: every call of a collaborator creates variables. The
  forward definition returns, beside its outputs, the calls it made, in order.
\<close>

datatype call = Mlp mlp_args | Parameter parameter_args

type_synonym mlp_fn = "tensor \<Rightarrow> mlp_args \<Rightarrow> tensor"

text \<open>The current values of the variables: name and index to component.\<close>

type_synonym variables = "string \<Rightarrow> nat \<Rightarrow> real"

text \<open>
  Modelled from the spec: \<^verbatim>\<open>garage.tf.core.parameter.parameter\<close> is not among the sources.
  The spec (section 6) gives \<^verbatim>\<open>parameter(reference_input, length, initializer, trainable)\<close>
  as a tensor \<^verbatim>\<open>[..., length]\<close> that broadcasts a vector of length \<^verbatim>\<open>length\<close> across the batch
  shape of \<^verbatim>\<open>reference_input\<close>. The vector is the variable of that name; the initializer and
  the trainable flag act when the variable is created and trained, not on the value read.
\<close>

definition parameter :: "variables \<Rightarrow> tensor \<Rightarrow> parameter_args \<Rightarrow> tensor" where
  "parameter vars input_var a =
     replicate (length input_var) (map (vars (parameter_name a)) [0..<parameter_length a])"

subsection \<open>Tensor operations\<close>

text \<open>\<^verbatim>\<open>tf.maximum\<close> and \<^verbatim>\<open>tf.minimum\<close> of a tensor and a scalar, elementwise.\<close>

definition tf_maximum :: "tensor \<Rightarrow> real \<Rightarrow> tensor" where
  "tf_maximum t c = map (map (\<lambda>x. max x c)) t"

definition tf_minimum :: "tensor \<Rightarrow> real \<Rightarrow> tensor" where
  "tf_minimum t c = map (map (\<lambda>x. min x c)) t"

definition tf_exp :: "tensor \<Rightarrow> tensor" where
  "tf_exp t = map (map exp) t"

definition tf_log :: "tensor \<Rightarrow> tensor" where
  "tf_log t = map (map ln) t"

text \<open>\<^verbatim>\<open>1. + t\<close>: a scalar added to every entry.\<close>

definition scalar_add :: "real \<Rightarrow> tensor \<Rightarrow> tensor" where
  "scalar_add c t = map (map (\<lambda>x. c + x)) t"

text \<open>\<^verbatim>\<open>v * t\<close> for a vector and a tensor: the vector is broadcast over the batch.\<close>

definition broadcast_mul :: "real list \<Rightarrow> tensor \<Rightarrow> tensor" where
  "broadcast_mul v t = map (\<lambda>row. map2 (*) v row) t"

definition tf_add :: "tensor \<Rightarrow> tensor \<Rightarrow> tensor" where
  "tf_add t u = map2 (map2 (+)) t u"

text \<open>
  The shape of a tensor of rank two. A tensor with no row has no width to read here
  (TensorFlow keeps the static width); every output of such a batch is empty all the same.
\<close>

definition get_shape :: "tensor \<Rightarrow> nat list" where
  "get_shape t = [length t, (case t of [] \<Rightarrow> 0 | row # _ \<Rightarrow> length row)]"

text \<open>
  \<^verbatim>\<open>tf.random.normal(shape, mean=0.0, stddev=1.0)\<close> draws from the Gaussian distribution
  with the given mean and standard deviation. The random source is explicit: \<open>normal a\<close> is
  the sequence of the draws of one invocation for the call with the arguments \<open>a\<close>. The
  source calls it with the shape only, so the mean is \<open>0\<close> and the standard deviation \<open>1\<close>,
  the unit Gaussian; the result holds as many draws as the shape has entries.
\<close>

record random_normal_args =
  normal_shape :: "nat list"
  normal_mean :: real
  normal_stddev :: real

type_synonym random_source = "random_normal_args \<Rightarrow> nat \<Rightarrow> real"

definition tf_random_normal :: "random_source \<Rightarrow> nat list \<Rightarrow> real list" where
  "tf_random_normal normal shape =
     map (normal \<lparr> normal_shape = shape, normal_mean = 0, normal_stddev = 1 \<rparr>)
       [0..<prod_list shape]"

subsection \<open>The forward definition\<close>

text \<open>The block \<^verbatim>\<open>with tf.variable_scope('dist_params')\<close>, lines 121 to 184.\<close>

definition dist_params ::
  "mlp_fn \<Rightarrow> variables \<Rightarrow> self \<Rightarrow> tensor \<Rightarrow> (tensor \<times> tensor) \<times> call list" where
  "dist_params mlp vars s state_input =
    (let action_dim = self_output_dim s in
     if self_std_share_network s then
       (let b = replicate action_dim (Some 0) @ replicate action_dim (self_init_std_param s);
            a = \<lparr> mlp_output_dim = action_dim * 2,
                  mlp_hidden_sizes = self_hidden_sizes s,
                  mlp_hidden_nonlinearity = self_hidden_nonlinearity s,
                  mlp_hidden_w_init = self_hidden_w_init s,
                  mlp_hidden_b_init = self_hidden_b_init s,
                  mlp_output_nonlinearity = self_output_nonlinearity s,
                  mlp_output_w_init = self_output_w_init s,
                  mlp_output_b_init = constant_initializer (Array b),
                  mlp_name = ''mean_std_network'',
                  mlp_layer_normalization = self_layer_normalization s \<rparr>;
            mean_std_network = mlp state_input a;
            mean_network = map (take action_dim) mean_std_network;
            log_std_network = map (drop action_dim) mean_std_network
        in ((mean_network, log_std_network), [Mlp a]))
     else
       (let a_mean = \<lparr> mlp_output_dim = action_dim,
                       mlp_hidden_sizes = self_hidden_sizes s,
                       mlp_hidden_nonlinearity = self_hidden_nonlinearity s,
                       mlp_hidden_w_init = self_hidden_w_init s,
                       mlp_hidden_b_init = self_hidden_b_init s,
                       mlp_output_nonlinearity = self_output_nonlinearity s,
                       mlp_output_w_init = self_output_w_init s,
                       mlp_output_b_init = self_output_b_init s,
                       mlp_name = ''mean_network'',
                       mlp_layer_normalization = self_layer_normalization s \<rparr>;
            mean_network = mlp state_input a_mean
        in if self_adaptive_std s then
             (let a_std = \<lparr> mlp_output_dim = action_dim,
                            mlp_hidden_sizes = self_std_hidden_sizes s,
                            mlp_hidden_nonlinearity = self_std_hidden_nonlinearity s,
                            mlp_hidden_w_init = self_std_hidden_w_init s,
                            mlp_hidden_b_init = self_std_hidden_b_init s,
                            mlp_output_nonlinearity = self_std_output_nonlinearity s,
                            mlp_output_w_init = self_std_output_w_init s,
                            mlp_output_b_init =
                              constant_initializer (Scalar (self_init_std_param s)),
                            mlp_name = ''log_std_network'',
                            mlp_layer_normalization = self_layer_normalization s \<rparr>;
                  log_std_network = mlp state_input a_std
              in ((mean_network, log_std_network), [Mlp a_mean, Mlp a_std]))
           else
             (let p = \<lparr> parameter_length = action_dim,
                        parameter_initializer =
                          constant_initializer (Scalar (self_init_std_param s)),
                        parameter_trainable = self_learn_std s,
                        parameter_name = ''log_std_network'' \<rparr>;
                  log_std_network = parameter vars state_input p
              in ((mean_network, log_std_network), [Mlp a_mean, Parameter p]))))"

text \<open>The block \<^verbatim>\<open>with tf.variable_scope('std_limits')\<close>, lines 189 to 193.\<close>

definition std_limits :: "self \<Rightarrow> tensor \<Rightarrow> tensor" where
  "std_limits s std_param =
    (let std_param = (case self_min_std_param s of
                        None \<Rightarrow> std_param
                      | Some lo \<Rightarrow> tf_maximum std_param lo);
         std_param = (case self_max_std_param s of
                        None \<Rightarrow> std_param
                      | Some hi \<Rightarrow> tf_minimum std_param hi)
     in std_param)"

text \<open>The block \<^verbatim>\<open>with tf.variable_scope('std_parameterization')\<close>, lines 195 to 200.\<close>

definition std_parameterization_scope :: "self \<Rightarrow> tensor \<Rightarrow> tensor" where
  "std_parameterization_scope s std_param =
    (if self_std_parameterization s = ''exp'' then std_param
     else tf_log (tf_log (scalar_add 1 (tf_exp std_param))))"

text \<open>
  \<^verbatim>\<open>_build\<close>: the five outputs \<^verbatim>\<open>(action_var, mean_var, log_std_var, std_param, dist)\<close>
  and the collaborator calls made.
\<close>

definition build ::
  "mlp_fn \<Rightarrow> variables \<Rightarrow> random_source \<Rightarrow> self \<Rightarrow> tensor \<Rightarrow>
     (tensor \<times> tensor \<times> tensor \<times> tensor \<times> distribution) \<times> call list" where
  "build mlp vars normal s state_input =
    (let ((mean_network, log_std_network), calls) = dist_params mlp vars s state_input;
         mean_var = mean_network;
         std_param = log_std_network;
         std_param = std_limits s std_param;
         log_std_var = std_parameterization_scope s std_param;
         dist = DiagonalGaussian (self_output_dim s);
         rnd = tf_random_normal normal (drop 1 (get_shape mean_var));
         action_var = tf_add (broadcast_mul rnd (tf_exp log_std_var)) mean_var
     in ((action_var, mean_var, log_std_var, std_param, dist), calls))"

text \<open>
  The outputs by the names of \<^verbatim>\<open>network_output_spec\<close>, and the calls made.
\<close>

type_synonym outputs = "(tensor \<times> tensor \<times> tensor \<times> tensor \<times> distribution) \<times> call list"

definition out_sample :: "outputs \<Rightarrow> tensor" where
  "out_sample r = fst (fst r)"

definition out_mean :: "outputs \<Rightarrow> tensor" where
  "out_mean r = fst (snd (fst r))"

definition out_log_std :: "outputs \<Rightarrow> tensor" where
  "out_log_std r = fst (snd (snd (fst r)))"

definition out_std_param :: "outputs \<Rightarrow> tensor" where
  "out_std_param r = fst (snd (snd (snd (fst r))))"

definition out_dist :: "outputs \<Rightarrow> distribution" where
  "out_dist r = snd (snd (snd (snd (fst r))))"

definition out_calls :: "outputs \<Rightarrow> call list" where
  "out_calls r = snd r"

subsection \<open>A concrete network builder\<close>

text \<open>
  An instance of the black box for evaluating the forward definition on concrete inputs:
  the network of width \<open>n\<close> maps a row to the \<open>n\<close> values sum of the row plus \<open>j\<close>.
\<close>

definition sum_mlp :: mlp_fn where
  "sum_mlp input_var a =
     map (\<lambda>row. map (\<lambda>j. sum_list row + real j) [0..<mlp_output_dim a]) input_var"

text \<open>Variables that all hold the value \<open>c\<close>, and a noise source that always draws \<open>c\<close>.\<close>

definition const_vars :: "real \<Rightarrow> variables" where
  "const_vars c n i = c"

definition const_noise :: "real \<Rightarrow> random_source" where
  "const_noise c a j = c"

text \<open>A noise source whose draws all lie \<open>c\<close> standard deviations above the mean asked for.\<close>

definition scale_noise :: "real \<Rightarrow> random_source" where
  "scale_noise c a j = normal_mean a + normal_stddev a * c"

section \<open>Properties\<close>

subsection \<open>Construction\<close>

lemma arg_simps:
  "arg d None = d" "arg d (Some v) = v"
  by (simp_all add: arg_def)

lemma init_exp:
  assumes "arg ''exp'' (std_parameterization kw) = ''exp''"
  shows "init d kw =
    ((store_args d kw) \<lparr> self_init_std_param := Some (ln (arg 1 (init_std kw))),
       self_min_std_param := map_option ln (arg (Some (1 / 10 ^ 6)) (min_std kw)),
       self_max_std_param := map_option ln (arg None (max_std kw)) \<rparr>, None)"
proof -
  have m: "self_std_parameterization (store_args d kw) = ''exp''"
    using assms by (simp add: store_args_def)
  have c: "\<And>f x. (case x of None \<Rightarrow> None | Some v \<Rightarrow> Some (f v)) = map_option f x"
    by (simp split: option.splits)
  show ?thesis
    unfolding init_def Let_def c using m by simp
qed

lemma init_softplus:
  assumes "arg ''exp'' (std_parameterization kw) = ''softplus''"
  shows "init d kw =
    ((store_args d kw) \<lparr> self_init_std_param := Some (ln (exp (arg 1 (init_std kw)) - 1)),
       self_min_std_param :=
         map_option (\<lambda>v. ln (exp v - 1)) (arg (Some (1 / 10 ^ 6)) (min_std kw)),
       self_max_std_param := map_option (\<lambda>v. ln (exp v - 1)) (arg None (max_std kw)) \<rparr>, None)"
proof -
  have m: "self_std_parameterization (store_args d kw) = ''softplus''"
    using assms by (simp add: store_args_def)
  have c: "\<And>f x. (case x of None \<Rightarrow> None | Some v \<Rightarrow> Some (f v)) = map_option f x"
    by (simp split: option.splits)
  show ?thesis
    unfolding init_def Let_def c using m by simp
qed

lemma init_other:
  assumes "arg ''exp'' (std_parameterization kw) \<noteq> ''exp''"
    and "arg ''exp'' (std_parameterization kw) \<noteq> ''softplus''"
  shows "init d kw = (store_args d kw, Some NotImplementedError)"
proof -
  have m: "self_std_parameterization (store_args d kw) = arg ''exp'' (std_parameterization kw)"
    by (simp add: store_args_def)
  show ?thesis
    unfolding init_def Let_def using m assms by simp
qed

lemma store_args_std [simp]:
  "self_min_std (store_args d kw) = arg (Some (1 / 10 ^ 6)) (min_std kw)"
  "self_max_std (store_args d kw) = arg None (max_std kw)"
  "self_std_parameterization (store_args d kw) = arg ''exp'' (std_parameterization kw)"
  "self_init_std_param (store_args d kw) = None"
  "self_min_std_param (store_args d kw) = None"
  "self_max_std_param (store_args d kw) = None"
  by (simp_all add: store_args_def)

text \<open>
  C1. The derived bounds follow the parametrization: under \<^verbatim>\<open>exp\<close> the construction succeeds
  and each derived parameter is \<open>ln\<close> of its argument, under \<^verbatim>\<open>softplus\<close> it is
  \<open>ln (exp v - 1)\<close>; \<^verbatim>\<open>init_std\<close> always has one, \<^verbatim>\<open>min_std\<close> and \<^verbatim>\<open>max_std\<close> only when
  they are not \<^verbatim>\<open>None\<close>. With \<^verbatim>\<open>init_std = 1.0\<close> the initial parameter is \<open>0\<close> under
  \<^verbatim>\<open>exp\<close> and \<open>ln (e - 1)\<close> under \<^verbatim>\<open>softplus\<close>.
\<close>

theorem std_parametrizer_bounds:
  "(self_std_parameterization (fst (init d kw)) = ''exp'' \<longrightarrow>
      GaussianMLPModel d kw = Inr (fst (init d kw)) \<and>
      self_init_std_param (fst (init d kw)) = Some (ln (arg 1 (init_std kw))) \<and>
      self_min_std_param (fst (init d kw)) = map_option ln (self_min_std (fst (init d kw))) \<and>
      self_max_std_param (fst (init d kw)) = map_option ln (self_max_std (fst (init d kw))))
   \<and> (self_std_parameterization (fst (init d kw)) = ''softplus'' \<longrightarrow>
      GaussianMLPModel d kw = Inr (fst (init d kw)) \<and>
      self_init_std_param (fst (init d kw)) = Some (ln (exp (arg 1 (init_std kw)) - 1)) \<and>
      self_min_std_param (fst (init d kw)) =
        map_option (\<lambda>v. ln (exp v - 1)) (self_min_std (fst (init d kw))) \<and>
      self_max_std_param (fst (init d kw)) =
        map_option (\<lambda>v. ln (exp v - 1)) (self_max_std (fst (init d kw))))
   \<and> self_init_std_param (fst (init d (no_kwargs \<lparr> init_std := Some 1 \<rparr>))) = Some 0
   \<and> self_init_std_param (fst (init d (no_kwargs
         \<lparr> init_std := Some 1, std_parameterization := Some ''softplus'' \<rparr>))) =
       Some (ln (exp 1 - 1))"
proof -
  consider (e) "arg ''exp'' (std_parameterization kw) = ''exp''"
    | (s) "arg ''exp'' (std_parameterization kw) = ''softplus''"
    | (o) "arg ''exp'' (std_parameterization kw) \<noteq> ''exp''"
          "arg ''exp'' (std_parameterization kw) \<noteq> ''softplus''"
    by blast
  then have gen: "(self_std_parameterization (fst (init d kw)) = ''exp'' \<longrightarrow>
      GaussianMLPModel d kw = Inr (fst (init d kw)) \<and>
      self_init_std_param (fst (init d kw)) = Some (ln (arg 1 (init_std kw))) \<and>
      self_min_std_param (fst (init d kw)) = map_option ln (self_min_std (fst (init d kw))) \<and>
      self_max_std_param (fst (init d kw)) = map_option ln (self_max_std (fst (init d kw))))
   \<and> (self_std_parameterization (fst (init d kw)) = ''softplus'' \<longrightarrow>
      GaussianMLPModel d kw = Inr (fst (init d kw)) \<and>
      self_init_std_param (fst (init d kw)) = Some (ln (exp (arg 1 (init_std kw)) - 1)) \<and>
      self_min_std_param (fst (init d kw)) =
        map_option (\<lambda>v. ln (exp v - 1)) (self_min_std (fst (init d kw))) \<and>
      self_max_std_param (fst (init d kw)) =
        map_option (\<lambda>v. ln (exp v - 1)) (self_max_std (fst (init d kw))))"
  proof cases
    case e
    show ?thesis by (simp add: GaussianMLPModel_def init_exp [OF e] e)
  next
    case s
    show ?thesis by (simp add: GaussianMLPModel_def init_softplus [OF s] s)
  next
    case o
    show ?thesis using o by (simp add: init_other [OF o])
  qed
  have x1: "self_init_std_param (fst (init d (no_kwargs \<lparr> init_std := Some 1 \<rparr>))) = Some 0"
    by (subst init_exp) (simp_all add: no_kwargs_def arg_simps)
  have x2: "self_init_std_param (fst (init d (no_kwargs
         \<lparr> init_std := Some 1, std_parameterization := Some ''softplus'' \<rparr>))) =
       Some (ln (exp 1 - 1))"
    by (subst init_softplus) (simp_all add: no_kwargs_def arg_simps)
  from gen x1 x2 show ?thesis by blast
qed

theorem std_parametrizer_bounds_witness:
  "self_std_parameterization (fst (init 2 (no_kwargs
       \<lparr> init_std := Some 2, min_std := Some (Some 1), max_std := Some (Some 3) \<rparr>))) = ''exp''
   \<and> self_init_std_param (fst (init 2 (no_kwargs
       \<lparr> init_std := Some 2, min_std := Some (Some 1), max_std := Some (Some 3) \<rparr>))) = Some (ln 2)
   \<and> self_min_std_param (fst (init 2 (no_kwargs
       \<lparr> init_std := Some 2, min_std := Some (Some 1), max_std := Some (Some 3) \<rparr>))) = Some 0
   \<and> self_max_std_param (fst (init 2 (no_kwargs
       \<lparr> init_std := Some 2, min_std := Some (Some 1), max_std := Some (Some 3) \<rparr>))) = Some (ln 3)
   \<and> self_std_parameterization (fst (init 2 (no_kwargs
       \<lparr> init_std := Some 2, min_std := Some None, std_parameterization := Some ''softplus'' \<rparr>))) = ''softplus''
   \<and> self_init_std_param (fst (init 2 (no_kwargs
       \<lparr> init_std := Some 2, min_std := Some None, std_parameterization := Some ''softplus'' \<rparr>))) = Some (ln (exp 2 - 1))
   \<and> self_min_std_param (fst (init 2 (no_kwargs
       \<lparr> init_std := Some 2, min_std := Some None, std_parameterization := Some ''softplus'' \<rparr>))) = None
   \<and> self_max_std_param (fst (init 2 (no_kwargs
       \<lparr> init_std := Some 2, min_std := Some None, std_parameterization := Some ''softplus'' \<rparr>))) = None"
proof -
  let ?k1 = "no_kwargs \<lparr> init_std := Some 2, min_std := Some (Some 1), max_std := Some (Some 3) \<rparr>"
  let ?k2 = "no_kwargs \<lparr> init_std := Some 2, min_std := Some None,
               std_parameterization := Some ''softplus'' \<rparr>"
  have m1: "self_std_parameterization (fst (init 2 ?k1)) = ''exp''"
    by (subst init_exp) (simp_all add: no_kwargs_def arg_simps)
  have m2: "self_std_parameterization (fst (init 2 ?k2)) = ''softplus''"
    by (subst init_softplus) (simp_all add: no_kwargs_def arg_simps)
  have a1: "self_min_std (fst (init 2 ?k1)) = Some 1" "self_max_std (fst (init 2 ?k1)) = Some 3"
    by (subst init_exp; simp add: no_kwargs_def arg_simps)+
  have a2: "self_min_std (fst (init 2 ?k2)) = None" "self_max_std (fst (init 2 ?k2)) = None"
    by (subst init_softplus; simp add: no_kwargs_def arg_simps)+
  show ?thesis
    using std_parametrizer_bounds [of 2 ?k1] std_parametrizer_bounds [of 2 ?k2] m1 m2 a1 a2
    by (simp add: arg_simps)
qed

text \<open>
  C7. A parametrization that is neither \<^verbatim>\<open>exp\<close> nor \<^verbatim>\<open>softplus\<close> makes the construction
  fail: \<^verbatim>\<open>__init__\<close> raises (\<^verbatim>\<open>NotImplementedError\<close> is the unsupported-parametrization
  error), the constructor call yields no object, and at the raise none of the three derived
  bounds has been populated.
\<close>

theorem unsupported_parametrization:
  "self_std_parameterization (fst (init d kw)) \<noteq> ''exp'' \<and>
   self_std_parameterization (fst (init d kw)) \<noteq> ''softplus'' \<longrightarrow>
     GaussianMLPModel d kw = Inl NotImplementedError \<and>
     snd (init d kw) = Some NotImplementedError \<and>
     self_init_std_param (fst (init d kw)) = None \<and>
     self_min_std_param (fst (init d kw)) = None \<and>
     self_max_std_param (fst (init d kw)) = None"
proof -
  consider (e) "arg ''exp'' (std_parameterization kw) = ''exp''"
    | (s) "arg ''exp'' (std_parameterization kw) = ''softplus''"
    | (o) "arg ''exp'' (std_parameterization kw) \<noteq> ''exp''"
          "arg ''exp'' (std_parameterization kw) \<noteq> ''softplus''"
    by blast
  then show ?thesis
  proof cases
    case e
    show ?thesis by (simp add: init_exp [OF e] e)
  next
    case s
    show ?thesis by (simp add: init_softplus [OF s] s)
  next
    case o
    show ?thesis by (simp add: GaussianMLPModel_def init_other [OF o])
  qed
qed

theorem unsupported_parametrization_witness:
  "self_std_parameterization
     (fst (init 2 (no_kwargs \<lparr> std_parameterization := Some ''tanh'' \<rparr>))) \<noteq> ''exp'' \<and>
   self_std_parameterization
     (fst (init 2 (no_kwargs \<lparr> std_parameterization := Some ''tanh'' \<rparr>))) \<noteq> ''softplus'' \<and>
   GaussianMLPModel 2 (no_kwargs \<lparr> std_parameterization := Some ''tanh'' \<rparr>) =
     Inl NotImplementedError \<and>
   self_init_std_param
     (fst (init 2 (no_kwargs \<lparr> std_parameterization := Some ''tanh'' \<rparr>))) = None \<and>
   self_min_std_param
     (fst (init 2 (no_kwargs \<lparr> std_parameterization := Some ''tanh'' \<rparr>))) = None \<and>
   self_max_std_param
     (fst (init 2 (no_kwargs \<lparr> std_parameterization := Some ''tanh'' \<rparr>))) = None"
proof -
  let ?k = "no_kwargs \<lparr> std_parameterization := Some ''tanh'' \<rparr>"
  have m: "self_std_parameterization (fst (init 2 ?k)) = ''tanh''"
    by (subst init_other) (simp_all add: arg_simps)
  show ?thesis
    using unsupported_parametrization [of 2 ?k] m by simp
qed

text \<open>
  C9. An omitted \<^verbatim>\<open>min_std\<close> is \<open>1e-6\<close>, not \<^verbatim>\<open>None\<close>, so the lower bound is configured
  by default (\<open>ln 1e-6\<close> under \<^verbatim>\<open>exp\<close>); after a successful construction the lower bound
  is absent exactly when the caller passed \<^verbatim>\<open>min_std = None\<close>. An omitted \<^verbatim>\<open>max_std\<close> is
  \<^verbatim>\<open>None\<close>: there is no upper bound and the clamp applies the lower bound only.
\<close>

theorem min_std_default:
  "(min_std kw = None \<longrightarrow>
      self_min_std (fst (init d kw)) = Some (1 / 10 ^ 6) \<and>
      (self_std_parameterization (fst (init d kw)) = ''exp'' \<longrightarrow>
         self_min_std_param (fst (init d kw)) = Some (ln (1 / 10 ^ 6))))
   \<and> (snd (init d kw) = None \<longrightarrow>
      (self_min_std_param (fst (init d kw)) = None \<longleftrightarrow> min_std kw = Some None))
   \<and> (max_std kw = None \<longrightarrow>
      self_max_std (fst (init d kw)) = None \<and>
      self_max_std_param (fst (init d kw)) = None \<and>
      std_limits (fst (init d kw)) t =
        (case self_min_std_param (fst (init d kw)) of
           None \<Rightarrow> t | Some lo \<Rightarrow> tf_maximum t lo))"
proof -
  consider (e) "arg ''exp'' (std_parameterization kw) = ''exp''"
    | (s) "arg ''exp'' (std_parameterization kw) = ''softplus''"
    | (o) "arg ''exp'' (std_parameterization kw) \<noteq> ''exp''"
          "arg ''exp'' (std_parameterization kw) \<noteq> ''softplus''"
    by blast
  then show ?thesis
  proof cases
    case e
    show ?thesis
      by (cases "min_std kw"; cases "max_std kw")
         (auto simp add: init_exp [OF e] e arg_simps std_limits_def)
  next
    case s
    show ?thesis
      by (cases "min_std kw"; cases "max_std kw")
         (auto simp add: init_softplus [OF s] s arg_simps std_limits_def)
  next
    case o
    show ?thesis
      by (cases "min_std kw"; cases "max_std kw")
         (auto simp add: init_other [OF o] o arg_simps std_limits_def)
  qed
qed

theorem min_std_default_witness:
  "min_std no_kwargs = None \<and> max_std no_kwargs = None \<and>
   snd (init 2 no_kwargs) = None \<and>
   self_std_parameterization (fst (init 2 no_kwargs)) = ''exp'' \<and>
   self_min_std (fst (init 2 no_kwargs)) = Some (1 / 10 ^ 6) \<and>
   self_min_std_param (fst (init 2 no_kwargs)) = Some (ln (1 / 10 ^ 6)) \<and>
   self_max_std_param (fst (init 2 no_kwargs)) = None \<and>
   std_limits (fst (init 2 no_kwargs)) [[0, 1]] = tf_maximum [[0, 1]] (ln (1 / 10 ^ 6)) \<and>
   snd (init 2 (no_kwargs \<lparr> min_std := Some None \<rparr>)) = None \<and>
   self_min_std_param (fst (init 2 (no_kwargs \<lparr> min_std := Some None \<rparr>))) = None"
proof -
  let ?k = "no_kwargs \<lparr> min_std := Some None \<rparr>"
  have n: "min_std no_kwargs = None" "max_std no_kwargs = None"
    by (simp_all add: no_kwargs_def)
  have e: "arg ''exp'' (std_parameterization no_kwargs) = ''exp''"
    "arg ''exp'' (std_parameterization ?k) = ''exp''"
    by (simp_all add: no_kwargs_def arg_simps)
  have m: "self_std_parameterization (fst (init 2 no_kwargs)) = ''exp''"
    "snd (init 2 no_kwargs) = None" "snd (init 2 ?k) = None"
    by (simp_all add: init_exp e)
  have k: "min_std ?k = Some None" by simp
  show ?thesis
    using min_std_default [of no_kwargs 2 "[[0, 1]]"] min_std_default [of ?k 2 "[]"] n m k
    by simp
qed

subsection \<open>Clamping and conversion\<close>

lemma std_limits_elementwise:
  "std_limits s t =
     map (map (\<lambda>x. (case self_max_std_param s of None \<Rightarrow> (\<lambda>y. y) | Some hi \<Rightarrow> (\<lambda>y. min y hi))
                     (case self_min_std_param s of None \<Rightarrow> x | Some lo \<Rightarrow> max x lo))) t"
  by (simp add: std_limits_def tf_maximum_def tf_minimum_def o_def split: option.splits)

lemma ln_tenth_gt: "- 5 < ln (1 / 10 :: real)"
proof -
  have "(10 :: real) < 2 ^ 5" by simp
  also have "\<dots> \<le> (1 + 1) ^ 5" by simp
  also have "\<dots> \<le> exp (1 :: real) ^ 5"
    by (rule power_mono) (use exp_ge_add_one_self [of "1 :: real"] in simp_all)
  also have "\<dots> = exp (5 :: real)"
    by (simp add: exp_of_nat_mult [symmetric])
  finally have "ln (10 :: real) < 5"
    by (metis exp_gt_zero ln_exp ln_less_cancel_iff zero_less_numeral)
  then show ?thesis by (simp add: ln_div)
qed

text \<open>
  C2. The clamp applies the lower bound, then the upper bound, to every entry, each only
  when it is configured. When both are configured and the lower one exceeds the upper one,
  every entry of the result is the upper bound; the clamp is a total function, so nothing is
  raised. With \<^verbatim>\<open>min_std = 0.1\<close> under \<^verbatim>\<open>exp\<close>, the raw value \<open>-5\<close> clamps to \<open>ln 0.1\<close>.
\<close>

theorem std_clamp_lower_then_upper:
  "std_limits s t =
     map (map (\<lambda>x. (case self_max_std_param s of None \<Rightarrow> (\<lambda>y. y) | Some hi \<Rightarrow> (\<lambda>y. min y hi))
                     (case self_min_std_param s of None \<Rightarrow> x | Some lo \<Rightarrow> max x lo))) t
   \<and> (self_min_std_param s = Some lo \<and> self_max_std_param s = Some hi \<and> hi < lo \<longrightarrow>
        std_limits s t = map (map (\<lambda>x. hi)) t)
   \<and> self_min_std_param (fst (init d (no_kwargs \<lparr> min_std := Some (Some (1 / 10)) \<rparr>))) =
        Some (ln (1 / 10))
   \<and> std_limits (fst (init d (no_kwargs \<lparr> min_std := Some (Some (1 / 10)) \<rparr>))) [[- 5]] =
        [[ln (1 / 10)]]"
proof -
  let ?k = "no_kwargs \<lparr> min_std := Some (Some (1 / 10)) \<rparr>"
  have e: "arg ''exp'' (std_parameterization ?k) = ''exp''"
    by (simp add: no_kwargs_def arg_simps)
  have b: "self_min_std_param (fst (init d ?k)) = Some (ln (1 / 10))"
    "self_max_std_param (fst (init d ?k)) = None"
    by (simp_all add: init_exp [OF e] arg_simps) (simp_all add: no_kwargs_def arg_simps)
  have x: "std_limits (fst (init d ?k)) [[- 5]] = [[ln (1 / 10)]]"
    unfolding std_limits_elementwise b using ln_tenth_gt by (simp add: max_def)
  have c: "self_min_std_param s = Some lo \<and> self_max_std_param s = Some hi \<and> hi < lo \<longrightarrow>
        std_limits s t = map (map (\<lambda>x. hi)) t"
    by (auto simp add: std_limits_elementwise)
  from std_limits_elementwise [of s t] c b(1) x show ?thesis by blast
qed

theorem std_clamp_lower_then_upper_witness:
  "self_min_std_param (fst (init 2 (no_kwargs
       \<lparr> min_std := Some (Some 3), max_std := Some (Some 1) \<rparr>))) = Some (ln 3) \<and>
   self_max_std_param (fst (init 2 (no_kwargs
       \<lparr> min_std := Some (Some 3), max_std := Some (Some 1) \<rparr>))) = Some 0 \<and>
   0 < ln (3 :: real) \<and>
   std_limits (fst (init 2 (no_kwargs
       \<lparr> min_std := Some (Some 3), max_std := Some (Some 1) \<rparr>))) [[5, - 5], [0, 2]] =
     [[0, 0], [0, 0]]"
proof -
  let ?k = "no_kwargs \<lparr> min_std := Some (Some 3), max_std := Some (Some 1) \<rparr>"
  have e: "arg ''exp'' (std_parameterization ?k) = ''exp''"
    by (simp add: no_kwargs_def arg_simps)
  have b: "self_min_std_param (fst (init 2 ?k)) = Some (ln 3)"
    "self_max_std_param (fst (init 2 ?k)) = Some 0"
    by (simp_all add: init_exp [OF e] arg_simps)
  have l: "0 < ln (3 :: real)" by simp
  show ?thesis
    using std_clamp_lower_then_upper [of "fst (init 2 ?k)" "[[5, - 5], [0, 2]]" "ln 3" 0 2] b l
    by simp
qed

text \<open>
  C8. Clamping is idempotent, whatever bounds are configured.
\<close>

theorem std_clamp_idempotent:
  "std_limits s (std_limits s t) = std_limits s t"
proof -
  have m: "min (max (min (max x lo) hi) lo) hi = min (max x lo) hi" for x lo hi :: real
    by (simp add: max_def min_def)
  show ?thesis
    by (cases "self_min_std_param s"; cases "self_max_std_param s")
       (simp_all add: std_limits_elementwise o_def m)
qed

text \<open>
  C3. Under \<^verbatim>\<open>exp\<close> the log-std is the parameter itself: converting a clamped tensor returns
  it unchanged, and the \<^verbatim>\<open>log_std\<close> output of the forward definition is its \<^verbatim>\<open>std_param\<close>
  output. Under \<^verbatim>\<open>softplus\<close> every entry \<open>x\<close> becomes \<open>ln (ln (1 + exp x))\<close>.
\<close>

theorem log_std_converter:
  "(self_std_parameterization s = ''exp'' \<longrightarrow>
      std_parameterization_scope s t = t \<and>
      std_parameterization_scope s (std_limits s t) = std_limits s t \<and>
      out_log_std (build mlp vars normal s x) = out_std_param (build mlp vars normal s x))
   \<and> (self_std_parameterization s = ''softplus'' \<longrightarrow>
      std_parameterization_scope s t = map (map (\<lambda>x. ln (ln (1 + exp x)))) t \<and>
      out_log_std (build mlp vars normal s x) =
        map (map (\<lambda>x. ln (ln (1 + exp x)))) (out_std_param (build mlp vars normal s x)))"
  by (simp add: std_parameterization_scope_def tf_log_def tf_exp_def scalar_add_def o_def
        build_def out_log_std_def out_std_param_def Let_def split: prod.splits)

theorem log_std_converter_witness:
  "self_std_parameterization (fst (init 2 no_kwargs)) = ''exp'' \<and>
   std_parameterization_scope (fst (init 2 no_kwargs)) [[0, - 1]] = [[0, - 1]] \<and>
   self_std_parameterization
     (fst (init 2 (no_kwargs \<lparr> std_parameterization := Some ''softplus'' \<rparr>))) = ''softplus'' \<and>
   std_parameterization_scope
     (fst (init 2 (no_kwargs \<lparr> std_parameterization := Some ''softplus'' \<rparr>))) [[0]] =
     [[ln (ln 2)]]"
proof -
  let ?k = "no_kwargs \<lparr> std_parameterization := Some ''softplus'' \<rparr>"
  have e: "arg ''exp'' (std_parameterization no_kwargs) = ''exp''"
    by (simp add: no_kwargs_def arg_simps)
  have s: "arg ''exp'' (std_parameterization ?k) = ''softplus''"
    by (simp add: arg_simps)
  have m: "self_std_parameterization (fst (init 2 no_kwargs)) = ''exp''"
    "self_std_parameterization (fst (init 2 ?k)) = ''softplus''"
    by (simp_all add: init_exp [OF e] init_softplus [OF s] e arg_simps)
  show ?thesis
    using log_std_converter [of "fst (init 2 no_kwargs)" "[[0, - 1]]"]
      log_std_converter [of "fst (init 2 ?k)" "[[0]]"] m
    by simp
qed

subsection \<open>The network factory\<close>

lemma sum_mlp_shape:
  "length (sum_mlp x a) = length x"
  "row \<in> set (sum_mlp x a) \<Longrightarrow> length row = mlp_output_dim a"
  by (auto simp add: sum_mlp_def)

lemma init_share:
  "fst (init 2 (no_kwargs \<lparr> std_share_network := Some True \<rparr>)) =
     (store_args 2 (no_kwargs \<lparr> std_share_network := Some True \<rparr>))
       \<lparr> self_init_std_param := Some 0, self_min_std_param := Some (ln (1 / 10 ^ 6)),
         self_max_std_param := None \<rparr>"
  by (subst init_exp) (simp_all add: no_kwargs_def arg_simps)

text \<open>
  C5. With \<^verbatim>\<open>std_share_network\<close> the factory makes one collaborator call, a network of
  width \<open>2 * output_dim\<close> whose output bias is initialised with \<open>output_dim\<close> zeros followed
  by \<open>output_dim\<close> copies of \<^verbatim>\<open>init_std_param\<close>; the mean is the first \<open>output_dim\<close>
  components of each output row and the raw std parameter the rest. When the builder honours
  the width it is asked for, both have width \<open>output_dim\<close>.
\<close>

theorem shared_network_split:
  assumes "self_std_share_network s"
  shows "\<exists>a. snd (dist_params mlp vars s x) = [Mlp a] \<and>
      mlp_name a = ''mean_std_network'' \<and>
      mlp_output_dim a = 2 * self_output_dim s \<and>
      mlp_output_b_init a = constant_initializer (Array
        (replicate (self_output_dim s) (Some 0) @
         replicate (self_output_dim s) (self_init_std_param s))) \<and>
      fst (fst (dist_params mlp vars s x)) = map (take (self_output_dim s)) (mlp x a) \<and>
      snd (fst (dist_params mlp vars s x)) = map (drop (self_output_dim s)) (mlp x a) \<and>
      ((\<forall>row \<in> set (mlp x a). length row = mlp_output_dim a) \<longrightarrow>
         (\<forall>row \<in> set (fst (fst (dist_params mlp vars s x))).
            length row = self_output_dim s) \<and>
         (\<forall>row \<in> set (snd (fst (dist_params mlp vars s x))).
            length row = self_output_dim s))"
  using assms by (auto simp add: dist_params_def Let_def)

theorem shared_network_split_witness:
  "self_std_share_network (fst (init 2 (no_kwargs \<lparr> std_share_network := Some True \<rparr>))) \<and>
   (\<exists>a. snd (dist_params sum_mlp (const_vars 0)
            (fst (init 2 (no_kwargs \<lparr> std_share_network := Some True \<rparr>))) [[1, 2]]) = [Mlp a] \<and>
        mlp_output_dim a = 4 \<and>
        mlp_output_b_init a = constant_initializer (Array [Some 0, Some 0, Some 0, Some 0]) \<and>
        sum_mlp [[1, 2]] a = [[3, 4, 5, 6]]) \<and>
   fst (dist_params sum_mlp (const_vars 0)
     (fst (init 2 (no_kwargs \<lparr> std_share_network := Some True \<rparr>))) [[1, 2]]) =
     ([[3, 4]], [[5, 6]]) \<and>
   list_all (\<lambda>row. length row = 2) (fst (fst (dist_params sum_mlp (const_vars 0)
     (fst (init 2 (no_kwargs \<lparr> std_share_network := Some True \<rparr>))) [[1, 2]]))) \<and>
   list_all (\<lambda>row. length row = 2) (snd (fst (dist_params sum_mlp (const_vars 0)
     (fst (init 2 (no_kwargs \<lparr> std_share_network := Some True \<rparr>))) [[1, 2]])))"
proof -
  let ?s = "fst (init 2 (no_kwargs \<lparr> std_share_network := Some True \<rparr>))"
  have sh: "self_std_share_network ?s" "self_output_dim ?s = 2" "self_init_std_param ?s = Some 0"
    by (simp_all add: init_share) (simp_all add: store_args_def arg_simps)
  have h: "\<forall>row \<in> set (sum_mlp [[1, 2]] a). length row = mlp_output_dim a" for a
    by (simp add: sum_mlp_shape)
  from shared_network_split [where s = ?s and mlp = sum_mlp and x = "[[1, 2]]"
      and vars = "const_vars 0", OF sh(1)]
  obtain a where a: "snd (dist_params sum_mlp (const_vars 0) ?s [[1, 2]]) = [Mlp a]"
    "mlp_output_dim a = 2 * self_output_dim ?s"
    "mlp_output_b_init a = constant_initializer (Array
        (replicate (self_output_dim ?s) (Some 0) @
         replicate (self_output_dim ?s) (self_init_std_param ?s)))"
    "fst (fst (dist_params sum_mlp (const_vars 0) ?s [[1, 2]])) =
       map (take (self_output_dim ?s)) (sum_mlp [[1, 2]] a)"
    "snd (fst (dist_params sum_mlp (const_vars 0) ?s [[1, 2]])) =
       map (drop (self_output_dim ?s)) (sum_mlp [[1, 2]] a)"
    and w: "(\<forall>row \<in> set (sum_mlp [[1, 2]] a). length row = mlp_output_dim a) \<longrightarrow>
       (\<forall>row \<in> set (fst (fst (dist_params sum_mlp (const_vars 0) ?s [[1, 2]]))).
          length row = self_output_dim ?s) \<and>
       (\<forall>row \<in> set (snd (fst (dist_params sum_mlp (const_vars 0) ?s [[1, 2]]))).
          length row = self_output_dim ?s)"
    by blast
  from w h [of a] sh(2)
  have wd: "list_all (\<lambda>row. length row = 2)
       (fst (fst (dist_params sum_mlp (const_vars 0) ?s [[1, 2]])))"
    "list_all (\<lambda>row. length row = 2)
       (snd (fst (dist_params sum_mlp (const_vars 0) ?s [[1, 2]])))"
    by (simp_all add: list_all_iff)
  have d: "mlp_output_dim a = 4" using a(2) sh(2) by simp
  have u: "[0..<4] = [0, 1, 2, 3]" by (simp add: upt_rec)
  have v: "sum_mlp [[1, 2]] a = [[3, 4, 5, 6]]"
    by (simp add: sum_mlp_def d u)
  have b: "mlp_output_b_init a = constant_initializer (Array [Some 0, Some 0, Some 0, Some 0])"
    using a(3) unfolding sh by (simp add: numeral_2_eq_2)
  have m: "fst (dist_params sum_mlp (const_vars 0) ?s [[1, 2]]) = ([[3, 4]], [[5, 6]])"
    using a(4) a(5) by (simp add: v sh prod_eq_iff)
  from sh(1) a(1) d b v m wd show ?thesis by blast
qed

lemma std_limits_replicate:
  "std_limits s (replicate n v) = replicate n
     (map (\<lambda>x. (case self_max_std_param s of None \<Rightarrow> (\<lambda>y. y) | Some hi \<Rightarrow> (\<lambda>y. min y hi))
                (case self_min_std_param s of None \<Rightarrow> x | Some lo \<Rightarrow> max x lo)) v)"
  by (simp add: std_limits_elementwise)

lemma init_fixed:
  "fst (init 2 (no_kwargs \<lparr> min_std := Some None \<rparr>)) =
     (store_args 2 (no_kwargs \<lparr> min_std := Some None \<rparr>))
       \<lparr> self_init_std_param := Some 0, self_min_std_param := None,
         self_max_std_param := None \<rparr>"
  by (subst init_exp) (simp_all add: no_kwargs_def arg_simps)

text \<open>
  C6. With neither \<^verbatim>\<open>std_share_network\<close> nor \<^verbatim>\<open>adaptive_std\<close>, the raw std parameter is the
  variable \<^verbatim>\<open>log_std_network\<close>, a vector of length \<open>output_dim\<close>, repeated for every row of
  \<^verbatim>\<open>state_input\<close>; the variable is requested with the initializer constant
  \<^verbatim>\<open>init_std_param\<close> and is trainable exactly when \<^verbatim>\<open>learn_std\<close> holds. So for fixed
  variables every row of \<^verbatim>\<open>std_param\<close> is the same clamped vector, and \<^verbatim>\<open>std_param\<close> does
  not change with the input, the mean network or the noise, for a batch of the same size.
\<close>

theorem fixed_std_parameter:
  assumes "\<not> self_std_share_network s" and "\<not> self_adaptive_std s"
  shows "snd (fst (dist_params mlp vars s x)) =
      replicate (length x) (map (vars ''log_std_network'') [0..<self_output_dim s])
    \<and> (\<exists>a. out_calls (build mlp vars normal s x) =
          [Mlp a, Parameter \<lparr> parameter_length = self_output_dim s,
             parameter_initializer = constant_initializer (Scalar (self_init_std_param s)),
             parameter_trainable = self_learn_std s,
             parameter_name = ''log_std_network'' \<rparr>])
    \<and> out_std_param (build mlp vars normal s x) =
      replicate (length x)
        (map (\<lambda>x. (case self_max_std_param s of None \<Rightarrow> (\<lambda>y. y) | Some hi \<Rightarrow> (\<lambda>y. min y hi))
                   (case self_min_std_param s of None \<Rightarrow> x | Some lo \<Rightarrow> max x lo))
           (map (vars ''log_std_network'') [0..<self_output_dim s]))
    \<and> (length x' = length x \<longrightarrow>
         out_std_param (build mlp' vars normal' s x') =
         out_std_param (build mlp vars normal s x))"
proof -
  have d: "\<And>m y. snd (fst (dist_params m vars s y)) =
      replicate (length y) (map (vars ''log_std_network'') [0..<self_output_dim s])"
    using assms by (simp add: dist_params_def Let_def parameter_def)
  have c: "\<exists>a. out_calls (build mlp vars normal s x) =
          [Mlp a, Parameter \<lparr> parameter_length = self_output_dim s,
             parameter_initializer = constant_initializer (Scalar (self_init_std_param s)),
             parameter_trainable = self_learn_std s,
             parameter_name = ''log_std_network'' \<rparr>]"
    using assms by (simp add: build_def out_calls_def dist_params_def Let_def)
  have o: "\<And>m nz y. out_std_param (build m vars nz s y) =
      std_limits s (snd (fst (dist_params m vars s y)))"
    by (simp add: build_def out_std_param_def Let_def split: prod.splits)
  show ?thesis
    unfolding o d std_limits_replicate using c by simp
qed

theorem fixed_std_parameter_witness:
  "\<not> self_std_share_network (fst (init 2 (no_kwargs \<lparr> min_std := Some None \<rparr>))) \<and>
   \<not> self_adaptive_std (fst (init 2 (no_kwargs \<lparr> min_std := Some None \<rparr>))) \<and>
   out_std_param (build sum_mlp (const_vars 7) (const_noise 1)
     (fst (init 2 (no_kwargs \<lparr> min_std := Some None \<rparr>))) [[1], [2], [3]]) =
     [[7, 7], [7, 7], [7, 7]] \<and>
   out_std_param (build sum_mlp (const_vars 7) (const_noise 0)
     (fst (init 2 (no_kwargs \<lparr> min_std := Some None \<rparr>))) [[5], [5], [9]]) =
     [[7, 7], [7, 7], [7, 7]]"
proof -
  let ?s = "fst (init 2 (no_kwargs \<lparr> min_std := Some None \<rparr>))"
  have f: "\<not> self_std_share_network ?s" "\<not> self_adaptive_std ?s"
    "self_output_dim ?s = 2" "self_min_std_param ?s = None" "self_max_std_param ?s = None"
    by (simp_all add: init_fixed) (simp_all add: store_args_def no_kwargs_def arg_simps)
  have u: "[0..<2] = [0, 1]" by (simp add: upt_rec)
  have r: "replicate 3 v = [v, v, v]" for v :: "real list"
    by (simp add: numeral_3_eq_3)
  show ?thesis
    using fixed_std_parameter [OF f(1) f(2), where x = "[[1], [2], [3]]"
        and x' = "[[5], [5], [9]]" and mlp = sum_mlp and mlp' = sum_mlp
        and vars = "const_vars 7" and normal = "const_noise 1" and normal' = "const_noise 0"] f
    by (simp add: u r const_vars_def)
qed

text \<open>
  C10. With \<^verbatim>\<open>std_share_network\<close> the shared branch is the one taken: the only collaborator
  call is the network \<^verbatim>\<open>mean_std_network\<close>, built from the mean's hidden sizes,
  nonlinearities and initializers. Changing \<^verbatim>\<open>adaptive_std\<close> and the std-specific hidden
  sizes, nonlinearities and initializers changes neither the mean and raw std parameter
  nor any other output; the argument \<^verbatim>\<open>adaptive_std\<close> only sets that attribute.
\<close>

theorem shared_network_ignores_adaptive_std:
  assumes "self_std_share_network s"
  shows "dist_params mlp vars
       (s \<lparr> self_adaptive_std := b, self_std_hidden_sizes := hs,
            self_std_hidden_nonlinearity := hn, self_std_hidden_w_init := hw,
            self_std_hidden_b_init := hb, self_std_output_nonlinearity := on,
            self_std_output_w_init := ow, self_std_output_b_init := ob \<rparr>) x =
     dist_params mlp vars s x
   \<and> build mlp vars normal
       (s \<lparr> self_adaptive_std := b, self_std_hidden_sizes := hs,
            self_std_hidden_nonlinearity := hn, self_std_hidden_w_init := hw,
            self_std_hidden_b_init := hb, self_std_output_nonlinearity := on,
            self_std_output_w_init := ow, self_std_output_b_init := ob \<rparr>) x =
     build mlp vars normal s x
   \<and> (\<exists>a. out_calls (build mlp vars normal s x) = [Mlp a] \<and>
          mlp_name a = ''mean_std_network'' \<and>
          mlp_hidden_sizes a = self_hidden_sizes s \<and>
          mlp_hidden_nonlinearity a = self_hidden_nonlinearity s \<and>
          mlp_hidden_w_init a = self_hidden_w_init s \<and>
          mlp_hidden_b_init a = self_hidden_b_init s \<and>
          mlp_output_nonlinearity a = self_output_nonlinearity s \<and>
          mlp_output_w_init a = self_output_w_init s)
   \<and> fst (init d (kw \<lparr> adaptive_std := ad \<rparr>)) =
       (fst (init d kw)) \<lparr> self_adaptive_std := arg False ad \<rparr>"
proof -
  let ?s' = "s \<lparr> self_adaptive_std := b, self_std_hidden_sizes := hs,
            self_std_hidden_nonlinearity := hn, self_std_hidden_w_init := hw,
            self_std_hidden_b_init := hb, self_std_output_nonlinearity := on,
            self_std_output_w_init := ow, self_std_output_b_init := ob \<rparr>"
  have d: "dist_params mlp vars ?s' x = dist_params mlp vars s x"
    using assms by (simp add: dist_params_def Let_def)
  have l: "std_limits ?s' = std_limits s"
    by (rule ext) (simp add: std_limits_def)
  have p: "std_parameterization_scope ?s' = std_parameterization_scope s"
    by (rule ext) (simp add: std_parameterization_scope_def)
  have b: "build mlp vars normal ?s' x = build mlp vars normal s x"
    unfolding build_def d l p by simp
  have c: "\<exists>a. out_calls (build mlp vars normal s x) = [Mlp a] \<and>
          mlp_name a = ''mean_std_network'' \<and>
          mlp_hidden_sizes a = self_hidden_sizes s \<and>
          mlp_hidden_nonlinearity a = self_hidden_nonlinearity s \<and>
          mlp_hidden_w_init a = self_hidden_w_init s \<and>
          mlp_hidden_b_init a = self_hidden_b_init s \<and>
          mlp_output_nonlinearity a = self_output_nonlinearity s \<and>
          mlp_output_w_init a = self_output_w_init s"
    using assms by (simp add: build_def out_calls_def dist_params_def Let_def)
  have i: "fst (init d (kw \<lparr> adaptive_std := ad \<rparr>)) =
       (fst (init d kw)) \<lparr> self_adaptive_std := arg False ad \<rparr>"
    by (simp add: init_def Let_def store_args_def)
  from d b c i show ?thesis by blast
qed

theorem shared_network_ignores_adaptive_std_witness:
  "self_std_share_network (fst (init 2 (no_kwargs \<lparr> std_share_network := Some True \<rparr>))) \<and>
   fst (dist_params sum_mlp (const_vars 0)
     ((fst (init 2 (no_kwargs \<lparr> std_share_network := Some True \<rparr>)))
        \<lparr> self_adaptive_std := True, self_std_hidden_sizes := [7],
          self_std_hidden_nonlinearity := None, self_std_hidden_w_init := zeros_initializer,
          self_std_hidden_b_init := glorot_uniform_initializer,
          self_std_output_nonlinearity := Some tf_nn_tanh,
          self_std_output_w_init := zeros_initializer,
          self_std_output_b_init := glorot_uniform_initializer \<rparr>) [[1, 2]]) =
     ([[3, 4]], [[5, 6]]) \<and>
   fst (dist_params sum_mlp (const_vars 0)
     (fst (init 2 (no_kwargs \<lparr> std_share_network := Some True \<rparr>))) [[1, 2]]) =
     ([[3, 4]], [[5, 6]])"
proof -
  let ?s = "fst (init 2 (no_kwargs \<lparr> std_share_network := Some True \<rparr>))"
  have sh: "self_std_share_network ?s" "self_output_dim ?s = 2"
    by (simp_all add: init_share) (simp_all add: store_args_def arg_simps)
  have u: "[0..<4] = [0, 1, 2, 3]" by (simp add: upt_rec)
  have m: "fst (dist_params sum_mlp (const_vars 0) ?s [[1, 2]]) = ([[3, 4]], [[5, 6]])"
    by (simp add: dist_params_def Let_def sh sum_mlp_def u)
  show ?thesis
    using shared_network_ignores_adaptive_std [OF sh(1), where mlp = sum_mlp
        and vars = "const_vars 0" and x = "[[1, 2]]" and b = True and hs = "[7]" and hn = None
        and hw = zeros_initializer and hb = glorot_uniform_initializer
        and on = "Some tf_nn_tanh" and ow = zeros_initializer
        and ob = glorot_uniform_initializer] sh(1) m
    by simp
qed

subsection \<open>Sampling and outputs\<close>

lemma std_limits_shape: "map length (std_limits s t) = map length t"
  by (simp add: std_limits_elementwise o_def)

lemma std_parameterization_scope_shape:
  "map length (std_parameterization_scope s t) = map length t"
  by (simp add: std_parameterization_scope_def tf_log_def tf_exp_def scalar_add_def o_def)

lemma dist_params_shape:
  assumes "\<forall>a. length (mlp x a) = length x \<and> (\<forall>row \<in> set (mlp x a). length row = mlp_output_dim a)"
  shows "map length (fst (fst (dist_params mlp vars s x))) = replicate (length x) (self_output_dim s)"
    and "map length (snd (fst (dist_params mlp vars s x))) = replicate (length x) (self_output_dim s)"
proof -
  have r: "map length t = replicate (length x) n"
    if "length t = length x" "\<forall>row \<in> set t. length row = n" for t :: tensor and n
    using that by (metis length_map map_replicate_const map_eq_conv)
  have m: "length (mlp x a) = length x" "\<forall>row \<in> set (mlp x a). length row = mlp_output_dim a" for a
    using assms by blast+
  show "map length (fst (fst (dist_params mlp vars s x))) = replicate (length x) (self_output_dim s)"
    by (rule r) (auto simp add: dist_params_def Let_def m)
  show "map length (snd (fst (dist_params mlp vars s x))) = replicate (length x) (self_output_dim s)"
    by (rule r) (auto simp add: dist_params_def Let_def m parameter_def)
qed

lemma build_outputs:
  "out_mean (build mlp vars normal s x) = fst (fst (dist_params mlp vars s x))"
  "out_std_param (build mlp vars normal s x) = std_limits s (snd (fst (dist_params mlp vars s x)))"
  "out_log_std (build mlp vars normal s x) =
     std_parameterization_scope s (out_std_param (build mlp vars normal s x))"
  "out_dist (build mlp vars normal s x) = DiagonalGaussian (self_output_dim s)"
  "out_calls (build mlp vars normal s x) = snd (dist_params mlp vars s x)"
  "out_sample (build mlp vars normal s x) =
     tf_add (broadcast_mul
        (tf_random_normal normal (drop 1 (get_shape (out_mean (build mlp vars normal s x)))))
        (tf_exp (out_log_std (build mlp vars normal s x))))
       (out_mean (build mlp vars normal s x))"
  by (simp_all add: build_def out_mean_def out_std_param_def out_log_std_def out_dist_def
        out_calls_def out_sample_def Let_def split: prod.splits)

lemma shape_nth:
  assumes "map length t = replicate b n" and "i < b"
  shows "length t = b" and "length (t ! i) = n"
proof -
  show l: "length t = b" using assms(1) by (metis length_map length_replicate)
  have "map length t ! i = n" using assms by simp
  then show "length (t ! i) = n" using l assms(2) by simp
qed

lemma noise_shape:
  assumes "map length t = replicate b n" and "0 < b"
  shows "tf_random_normal normal (drop 1 (get_shape t)) =
    map (normal \<lparr> normal_shape = [n], normal_mean = 0, normal_stddev = 1 \<rparr>) [0..<n]"
proof -
  obtain r rs where t: "t = r # rs"
    using assms by (cases t) auto
  have "length r = n" using assms t by (cases b) auto
  then show ?thesis by (simp add: t get_shape_def tf_random_normal_def)
qed

lemma sample_nth:
  assumes ls: "map length ls = replicate b n" and mu: "map length mu = replicate b n"
    and i: "i < b" and j: "j < n"
  shows "tf_add (broadcast_mul (map normal [0..<n]) (tf_exp ls)) mu ! i ! j =
     normal j * exp (ls ! i ! j) + mu ! i ! j"
    and "length (tf_add (broadcast_mul (map normal [0..<n]) (tf_exp ls)) mu ! i) = n"
    and "length (tf_add (broadcast_mul (map normal [0..<n]) (tf_exp ls)) mu) = b"
proof -
  note a = shape_nth [OF ls i] shape_nth [OF mu i]
  show "tf_add (broadcast_mul (map normal [0..<n]) (tf_exp ls)) mu ! i ! j =
     normal j * exp (ls ! i ! j) + mu ! i ! j"
    using a i j by (simp add: tf_add_def broadcast_mul_def tf_exp_def)
  show "length (tf_add (broadcast_mul (map normal [0..<n]) (tf_exp ls)) mu ! i) = n"
    using a i by (simp add: tf_add_def broadcast_mul_def tf_exp_def)
  show "length (tf_add (broadcast_mul (map normal [0..<n]) (tf_exp ls)) mu) = b"
    using a by (simp add: tf_add_def broadcast_mul_def tf_exp_def)
qed

lemma sample_row_length:
  assumes "map length ls = replicate b n" and "map length mu = replicate b n" and "i < b"
  shows "length (tf_add (broadcast_mul v (tf_exp ls)) mu ! i) = min (length v) n"
  using shape_nth [OF assms(1) assms(3)] shape_nth [OF assms(2) assms(3)] assms(3)
  by (simp add: tf_add_def broadcast_mul_def tf_exp_def)

lemma init_adaptive:
  "fst (init 2 (no_kwargs \<lparr> adaptive_std := Some True, min_std := Some None \<rparr>)) =
     (store_args 2 (no_kwargs \<lparr> adaptive_std := Some True, min_std := Some None \<rparr>))
       \<lparr> self_init_std_param := Some 0, self_min_std_param := None,
         self_max_std_param := None \<rparr>"
  by (subst init_exp) (simp_all add: no_kwargs_def arg_simps)

lemma build_elementwise:
  assumes "\<forall>a. length (mlp x a) = length x \<and>
             (\<forall>row \<in> set (mlp x a). length row = mlp_output_dim a)"
  shows "build mlp vars normal s x =
      ((out_sample (build mlp vars normal s x), out_mean (build mlp vars normal s x),
        out_log_std (build mlp vars normal s x), out_std_param (build mlp vars normal s x),
        out_dist (build mlp vars normal s x)), out_calls (build mlp vars normal s x))
    \<and> out_dist (build mlp vars normal s x) = DiagonalGaussian (self_output_dim s)
    \<and> out_dist (build mlp' vars' normal' s x') = out_dist (build mlp vars normal s x)
    \<and> map length (out_mean (build mlp vars normal s x)) =
        replicate (length x) (self_output_dim s)
    \<and> map length (out_std_param (build mlp vars normal s x)) =
        replicate (length x) (self_output_dim s)
    \<and> map length (out_log_std (build mlp vars normal s x)) =
        replicate (length x) (self_output_dim s)
    \<and> map length (out_sample (build mlp vars normal s x)) =
        replicate (length x) (self_output_dim s)
    \<and> (x \<noteq> [] \<longrightarrow>
         tf_random_normal normal (drop 1 (get_shape (out_mean (build mlp vars normal s x)))) =
         map (normal \<lparr> normal_shape = [self_output_dim s], normal_mean = 0, normal_stddev = 1 \<rparr>)
           [0..<self_output_dim s])
    \<and> (\<forall>i j. i < length x \<and> j < self_output_dim s \<longrightarrow>
         out_sample (build mlp vars normal s x) ! i ! j =
         normal \<lparr> normal_shape = [self_output_dim s], normal_mean = 0, normal_stddev = 1 \<rparr> j *
             exp (out_log_std (build mlp vars normal s x) ! i ! j) +
         out_mean (build mlp vars normal s x) ! i ! j)"
proof -
  let ?r = "build mlp vars normal s x"
  let ?b = "length x" and ?n = "self_output_dim s"
  let ?a = "\<lparr> normal_shape = [self_output_dim s], normal_mean = 0, normal_stddev = 1 \<rparr>"
  have t: "?r = ((out_sample ?r, out_mean ?r, out_log_std ?r, out_std_param ?r, out_dist ?r),
      out_calls ?r)"
    by (simp add: out_mean_def out_std_param_def out_log_std_def out_dist_def
        out_calls_def out_sample_def)
  note dp = dist_params_shape [where mlp = mlp and x = x, OF assms]
  have mu: "map length (out_mean ?r) = replicate ?b ?n"
    by (simp add: build_outputs(1) dp(1))
  have sp: "map length (out_std_param ?r) = replicate ?b ?n"
    by (simp add: build_outputs(2) std_limits_shape dp(2))
  have ls: "map length (out_log_std ?r) = replicate ?b ?n"
    by (simp add: build_outputs(3) std_parameterization_scope_shape sp)
  have nz: "tf_random_normal normal (drop 1 (get_shape (out_mean ?r))) = map (normal ?a) [0..<?n]"
    if "x \<noteq> []"
    using noise_shape [OF mu] that by simp
  have el: "out_sample ?r ! i ! j = normal ?a j * exp (out_log_std ?r ! i ! j) + out_mean ?r ! i ! j"
    if "i < ?b" "j < ?n" for i j
  proof -
    from that have "x \<noteq> []" by auto
    then have sm: "out_sample ?r =
        tf_add (broadcast_mul (map (normal ?a) [0..<?n]) (tf_exp (out_log_std ?r))) (out_mean ?r)"
      using build_outputs(6) [of mlp vars normal s x] nz by simp
    show "out_sample ?r ! i ! j = normal ?a j * exp (out_log_std ?r ! i ! j) + out_mean ?r ! i ! j"
      by (subst sm) (rule sample_nth(1) [OF ls mu that])
  qed
  have lens: "length (out_log_std ?r) = ?b" "length (out_mean ?r) = ?b"
    using ls mu by (metis length_map length_replicate)+
  have len: "length (out_sample ?r) = ?b"
    by (subst build_outputs(6)) (simp add: tf_add_def broadcast_mul_def tf_exp_def lens)
  have sa: "map length (out_sample ?r) = replicate ?b ?n"
  proof -
    have "length (out_sample ?r ! i) = ?n" if "i < ?b" for i
    proof -
      from that have "x \<noteq> []" by auto
      then have sm: "out_sample ?r =
          tf_add (broadcast_mul (map (normal ?a) [0..<?n]) (tf_exp (out_log_std ?r))) (out_mean ?r)"
        using build_outputs(6) [of mlp vars normal s x] nz by simp
      show ?thesis
        unfolding sm using sample_row_length [OF ls mu that, of "map (normal ?a) [0..<?n]"] by simp
    qed
    then show ?thesis using len by (simp add: list_eq_iff_nth_eq)
  qed
  have d: "out_dist (build mlp' vars' normal' s x') = out_dist ?r"
    by (simp add: build_outputs(4))
  from t build_outputs(4) [of mlp vars normal s x] d mu sp ls sa nz el
  show ?thesis by blast
qed

text \<open>
  C4, as amended. The forward definition returns the five outputs sample, mean, log-std,
  std parameter and distribution. The sample is \<open>noise * exp log_std + mean\<close>, where the
  noise is drawn from the unit Gaussian (the call of \<^verbatim>\<open>tf.random.normal\<close> with mean \<open>0\<close> and
  standard deviation \<open>1\<close>) in the shape of the mean without its batch axis, and is broadcast
  over the batch. When the network builder keeps the batch size and the width it is asked
  for, all four tensors have the shape of the batch by \<open>output_dim\<close>, the noise has
  \<open>output_dim\<close> entries and every entry of the sample is
  \<open>noise j * exp (log_std i j) + mean i j\<close>. The distribution is
  \<^verbatim>\<open>DiagonalGaussian(output_dim)\<close>: it is built from \<open>output_dim\<close> alone and is the same
  whatever the mean and the log-std are.
\<close>

theorem reparameterized_sample:
  "build mlp vars normal s x =
      ((out_sample (build mlp vars normal s x), out_mean (build mlp vars normal s x),
        out_log_std (build mlp vars normal s x), out_std_param (build mlp vars normal s x),
        out_dist (build mlp vars normal s x)), out_calls (build mlp vars normal s x))
    \<and> out_sample (build mlp vars normal s x) =
        tf_add (broadcast_mul
           (map (normal \<lparr> normal_shape = drop 1 (get_shape (out_mean (build mlp vars normal s x))),
                           normal_mean = 0, normal_stddev = 1 \<rparr>)
              [0..<prod_list (drop 1 (get_shape (out_mean (build mlp vars normal s x))))])
           (tf_exp (out_log_std (build mlp vars normal s x))))
          (out_mean (build mlp vars normal s x))
    \<and> out_dist (build mlp vars normal s x) = DiagonalGaussian (self_output_dim s)
    \<and> out_dist (build mlp' vars' normal' s x') = out_dist (build mlp vars normal s x)
    \<and> ((\<forall>a. length (mlp x a) = length x \<and>
             (\<forall>row \<in> set (mlp x a). length row = mlp_output_dim a)) \<longrightarrow>
        map length (out_mean (build mlp vars normal s x)) =
          replicate (length x) (self_output_dim s)
      \<and> map length (out_std_param (build mlp vars normal s x)) =
          replicate (length x) (self_output_dim s)
      \<and> map length (out_log_std (build mlp vars normal s x)) =
          replicate (length x) (self_output_dim s)
      \<and> map length (out_sample (build mlp vars normal s x)) =
          replicate (length x) (self_output_dim s)
      \<and> (x \<noteq> [] \<longrightarrow>
           tf_random_normal normal (drop 1 (get_shape (out_mean (build mlp vars normal s x)))) =
           map (normal \<lparr> normal_shape = [self_output_dim s], normal_mean = 0, normal_stddev = 1 \<rparr>)
           [0..<self_output_dim s])
      \<and> (\<forall>i j. i < length x \<and> j < self_output_dim s \<longrightarrow>
           out_sample (build mlp vars normal s x) ! i ! j =
           normal \<lparr> normal_shape = [self_output_dim s], normal_mean = 0, normal_stddev = 1 \<rparr> j *
             exp (out_log_std (build mlp vars normal s x) ! i ! j) +
           out_mean (build mlp vars normal s x) ! i ! j))"
proof -
  have u: "out_dist (build mlp' vars' normal' s x') = out_dist (build mlp vars normal s x)"
    by (simp add: build_outputs(4))
  have t: "build mlp vars normal s x =
      ((out_sample (build mlp vars normal s x), out_mean (build mlp vars normal s x),
        out_log_std (build mlp vars normal s x), out_std_param (build mlp vars normal s x),
        out_dist (build mlp vars normal s x)), out_calls (build mlp vars normal s x))"
    by (simp add: out_mean_def out_std_param_def out_log_std_def out_dist_def
        out_calls_def out_sample_def)
  show ?thesis
    using build_elementwise [where mlp = mlp and x = x and vars = vars and normal = normal
        and s = s]
      build_outputs(4) [of mlp vars normal s x]
      build_outputs(6) [of mlp vars normal s x, unfolded tf_random_normal_def] u t
    by blast
qed

theorem reparameterized_sample_witness:
  "out_mean (build sum_mlp (const_vars 0) (scale_noise 2)
     (fst (init 2 (no_kwargs \<lparr> min_std := Some None \<rparr>))) [[1, 2]]) = [[3, 4]] \<and>
   out_log_std (build sum_mlp (const_vars 0) (scale_noise 2)
     (fst (init 2 (no_kwargs \<lparr> min_std := Some None \<rparr>))) [[1, 2]]) = [[0, 0]] \<and>
   out_dist (build sum_mlp (const_vars 0) (scale_noise 2)
     (fst (init 2 (no_kwargs \<lparr> min_std := Some None \<rparr>))) [[1, 2]]) = DiagonalGaussian 2 \<and>
   map length (out_sample (build sum_mlp (const_vars 0) (scale_noise 2)
     (fst (init 2 (no_kwargs \<lparr> min_std := Some None \<rparr>))) [[1, 2]])) = [2] \<and>
   out_sample (build sum_mlp (const_vars 0) (scale_noise 2)
     (fst (init 2 (no_kwargs \<lparr> min_std := Some None \<rparr>))) [[1, 2]]) ! 0 ! 0 = 5 \<and>
   out_sample (build sum_mlp (const_vars 0) (scale_noise 2)
     (fst (init 2 (no_kwargs \<lparr> min_std := Some None \<rparr>))) [[1, 2]]) ! 0 ! 1 = 6"
proof -
  let ?s = "fst (init 2 (no_kwargs \<lparr> min_std := Some None \<rparr>))"
  let ?r = "build sum_mlp (const_vars 0) (scale_noise 2) ?s [[1, 2]]"
  have f: "\<not> self_std_share_network ?s" "\<not> self_adaptive_std ?s"
    "self_output_dim ?s = 2" "self_min_std_param ?s = None" "self_max_std_param ?s = None"
    "self_std_parameterization ?s = ''exp''"
    by (simp_all add: init_fixed) (simp_all add: store_args_def no_kwargs_def arg_simps)
  have h: "\<forall>a. length (sum_mlp [[1, 2]] a) = length [[1, 2 :: real]] \<and>
      (\<forall>row \<in> set (sum_mlp [[1, 2]] a). length row = mlp_output_dim a)"
    by (simp add: sum_mlp_shape)
  have u: "[0..<2] = [0, 1]" by (simp add: upt_rec)
  have mu: "out_mean ?r = [[3, 4]]"
    by (simp add: build_outputs(1) dist_params_def Let_def f sum_mlp_def u)
  have sp: "out_std_param ?r = [[0, 0]]"
    by (simp add: build_outputs(2) dist_params_def Let_def f std_limits_def parameter_def u
        const_vars_def)
  have ls: "out_log_std ?r = [[0, 0]]"
    by (simp add: build_outputs(3) sp std_parameterization_scope_def f)
  have t: "out_dist ?r = DiagonalGaussian (self_output_dim ?s)"
    "map length (out_sample ?r) = replicate (length [[1, 2 :: real]]) (self_output_dim ?s)"
    "\<forall>i j. i < length [[1, 2 :: real]] \<and> j < self_output_dim ?s \<longrightarrow>
       out_sample ?r ! i ! j =
       scale_noise 2
         \<lparr> normal_shape = [self_output_dim ?s], normal_mean = 0, normal_stddev = 1 \<rparr> j *
         exp (out_log_std ?r ! i ! j) + out_mean ?r ! i ! j"
    using reparameterized_sample [where mlp = sum_mlp and x = "[[1, 2]]" and s = ?s
      and vars = "const_vars 0" and normal = "scale_noise 2"] h
    by blast+
  from t have d: "out_dist ?r = DiagonalGaussian 2" using f(3) by simp
  from t have l: "map length (out_sample ?r) = [2]" using f(3) by simp
  from t have e: "\<And>i j. i < 1 \<Longrightarrow> j < 2 \<Longrightarrow>
      out_sample ?r ! i ! j =
        scale_noise 2 \<lparr> normal_shape = [2], normal_mean = 0, normal_stddev = 1 \<rparr> j *
        exp (out_log_std ?r ! i ! j) + out_mean ?r ! i ! j"
    using f(3) by simp
  have e0: "out_sample ?r ! 0 ! 0 = 5"
    using e [of 0 0] by (simp add: mu ls scale_noise_def)
  have e1: "out_sample ?r ! 0 ! 1 = 6"
    using e [of 0 1] by (simp add: mu ls scale_noise_def)
  from mu ls d l e0 e1 show ?thesis by blast
qed

text \<open>
  The distribution object does not hold the mean and the log-std: two invocations whose
  means and log-stds differ return the same object.
\<close>

theorem distribution_not_bound_counterexample:
  "out_dist (build sum_mlp (const_vars 0) (const_noise 0)
      (fst (init 2 (no_kwargs \<lparr> adaptive_std := Some True, min_std := Some None \<rparr>))) [[0]]) =
   out_dist (build sum_mlp (const_vars 0) (const_noise 0)
      (fst (init 2 (no_kwargs \<lparr> adaptive_std := Some True, min_std := Some None \<rparr>))) [[1]]) \<and>
   out_mean (build sum_mlp (const_vars 0) (const_noise 0)
      (fst (init 2 (no_kwargs \<lparr> adaptive_std := Some True, min_std := Some None \<rparr>))) [[0]]) \<noteq>
   out_mean (build sum_mlp (const_vars 0) (const_noise 0)
      (fst (init 2 (no_kwargs \<lparr> adaptive_std := Some True, min_std := Some None \<rparr>))) [[1]]) \<and>
   out_log_std (build sum_mlp (const_vars 0) (const_noise 0)
      (fst (init 2 (no_kwargs \<lparr> adaptive_std := Some True, min_std := Some None \<rparr>))) [[0]]) \<noteq>
   out_log_std (build sum_mlp (const_vars 0) (const_noise 0)
      (fst (init 2 (no_kwargs \<lparr> adaptive_std := Some True, min_std := Some None \<rparr>))) [[1]])"
proof -
  let ?s = "fst (init 2 (no_kwargs \<lparr> adaptive_std := Some True, min_std := Some None \<rparr>))"
  have f: "\<not> self_std_share_network ?s" "self_adaptive_std ?s"
    "self_output_dim ?s = 2" "self_min_std_param ?s = None" "self_max_std_param ?s = None"
    "self_std_parameterization ?s = ''exp''"
    unfolding init_adaptive by (simp_all add: store_args_def no_kwargs_def arg_simps)
  have u: "[0..<2] = [0, 1]" by (simp add: upt_rec)
  have o: "out_mean (build sum_mlp (const_vars 0) (const_noise 0) ?s [[c]]) = [[c, c + 1]]"
    "out_log_std (build sum_mlp (const_vars 0) (const_noise 0) ?s [[c]]) = [[c, c + 1]]" for c
    by (simp_all add: build_outputs(1,2,3) dist_params_def Let_def f sum_mlp_def std_limits_def
        std_parameterization_scope_def u)
  show ?thesis
    by (simp add: o build_outputs(4))
qed

end
